theory Spec2Isabelle
  imports Main "HOL-Library.Word"
begin

section \<open>Go values used by package iox\<close>

text \<open>
  A Go \<^verbatim>\<open>byte\<close> is an unsigned 8-bit integer. A Go \<^verbatim>\<open>string\<close> is an immutable
  sequence of bytes; the conversion \<^verbatim>\<open>[]byte(str)\<close> yields a fresh slice holding exactly
  those bytes, and \<^verbatim>\<open>len(str)\<close> counts bytes.
\<close>

type_synonym byte = "8 word"

datatype gostring = GoString (bytes_of: "byte list")

text \<open>
  A byte slice is modelled by the list of its elements, so \<^verbatim>\<open>len(s)\<close> is \<open>length s\<close>.
  The capacity beyond the length is not modelled: every slice expression of
  \<^verbatim>\<open>reader.go\<close> has an upper bound that is at most the length of the sliced operand,
  and no function of the file appends or reads \<^verbatim>\<open>cap\<close>. Destination buffers are taken
  not to share memory with the chunks a producer sends.

  \<^verbatim>\<open>s[lo:hi]\<close> panics at run time unless \<open>lo \<le> hi\<close> and \<open>hi\<close> is within bounds;
  \<open>None\<close> stands for that panic.
\<close>

definition go_slice :: "'a list \<Rightarrow> nat \<Rightarrow> nat \<Rightarrow> 'a list option" where
  "go_slice s lo hi =
     (if lo \<le> hi \<and> hi \<le> length s then Some (take (hi - lo) (drop lo s)) else None)"

text \<open>
  The builtin \<^verbatim>\<open>copy(dst, src)\<close> copies \<open>min (len dst) (len src)\<close> elements to the
  \<^emph>\<open>front\<close> of \<open>dst\<close> and returns that number. The model returns the number and the
  destination after the copy.
\<close>

definition go_copy :: "'a list \<Rightarrow> 'a list \<Rightarrow> nat \<times> 'a list" where
  "go_copy dst src =
     (let n = min (length dst) (length src) in (n, take n src @ drop n dst))"

subsection \<open>Channels\<close>

text \<open>
  A channel value is either \<^verbatim>\<open>nil\<close> or a channel holding the values that have been sent
  and not yet received, in send order, together with its closed flag. The values of a
  producer that sends a sequence of chunks and then closes are the \<open>pending\<close> list of a
  closed channel: every receive hands out the next one, whatever the timing.

  \<^verbatim>\<open>v, ok := <-ch\<close>: a pending value is received with \<open>ok = true\<close> (also when the channel
  has been closed in the meantime); a closed channel with nothing pending yields the zero
  value of the element type and \<open>ok = false\<close>; an open channel with nothing pending, and a
  \<^verbatim>\<open>nil\<close> channel, block. \<open>None\<close> stands for a receive that does not return unless some
  other goroutine acts on the channel.
\<close>

datatype 'a chan = NilChan | Chan (pending: "'a list") (closed: bool)

fun recv :: "'a \<Rightarrow> 'a chan \<Rightarrow> ('a \<times> bool \<times> 'a chan) option" where
  "recv zero NilChan = None"
| "recv zero (Chan (v # vs) c) = Some (v, True, Chan vs c)"
| "recv zero (Chan [] True) = Some (zero, False, Chan [] True)"
| "recv zero (Chan [] False) = None"

datatype panic =
    SliceBoundsOutOfRange nat nat
  | CloseOfNilChannel
  | CloseOfClosedChannel

text \<open>The builtin \<^verbatim>\<open>close(ch)\<close> panics on a \<^verbatim>\<open>nil\<close> channel and on a closed channel.\<close>

fun chan_close :: "'a chan \<Rightarrow> panic + 'a chan" where
  "chan_close NilChan = Inl CloseOfNilChannel"
| "chan_close (Chan vs True) = Inl CloseOfClosedChannel"
| "chan_close (Chan vs False) = Inr (Chan vs True)"

section \<open>The channel readers\<close>

text \<open>
  \<^verbatim>\<open>type readerChanString struct { ch chan string; buf []byte }\<close> and
  \<^verbatim>\<open>type readerChanByteSlice struct { ch chan []byte; buf []byte }\<close>. The reader holds a
  reference to the channel; the model keeps the channel's state in the reader, and a call
  returns the reader with the channel as the call left it.
\<close>

record 'a reader =
  ch :: "'a chan"
  buf :: "byte list"

type_synonym readerChanString = "gostring reader"
type_synonym readerChanByteSlice = "byte list reader"

definition ReaderFromChanString :: "gostring chan \<Rightarrow> readerChanString" where
  "ReaderFromChanString c = \<lparr>ch = c, buf = []\<rparr>"

definition ReaderFromChanByteSlice :: "byte list chan \<Rightarrow> readerChanByteSlice" where
  "ReaderFromChanByteSlice c = \<lparr>ch = c, buf = []\<rparr>"

datatype error = EOF

text \<open>
  What a call of \<^verbatim>\<open>Read(p)\<close> does: it returns \<open>(n, err)\<close>, leaving the destination and
  the reader changed, or it panics, or it blocks in the channel receive. \<open>Returned\<close> also
  lists the results \<open>(value, ok)\<close> of the channel receives the call performed, in order.
\<close>

datatype 'a outcome =
    Returned nat "error option" "byte list" "'a reader" "('a \<times> bool) list"
  | Panicked panic
  | Blocked

text \<open>
  \<^verbatim>\<open>func (r *readerChanString) Read(p []byte) (n int, err error)\<close>, lines 81 to 106.
  The first \<open>case\<close> is the \<^verbatim>\<open>if\<close> chain on \<^verbatim>\<open>r.buf\<close>: \<open>Inl\<close> is its early exit, \<open>Inr\<close>
  carries \<open>w\<close>, the destination and the reader on to the receive.
\<close>

definition readerChanString_Read :: "readerChanString \<Rightarrow> byte list \<Rightarrow> gostring outcome" where
  "readerChanString_Read r p =
    (case
       (if length (buf r) = 0 then
          Inr (0, p, r)
        else if length p \<ge> length (buf r) then
          (case go_copy p (buf r) of (w, p') \<Rightarrow>
           case go_slice (buf r) 0 0 of
             None \<Rightarrow> Inl (Panicked (SliceBoundsOutOfRange 0 0))
           | Some b \<Rightarrow> Inr (w, p', r\<lparr>buf := b\<rparr>))
        else
          (case go_slice (buf r) 0 (length p) of
             None \<Rightarrow> Inl (Panicked (SliceBoundsOutOfRange 0 (length p)))
           | Some front \<Rightarrow>
              (case go_copy p front of (w, p') \<Rightarrow>
               case go_slice (buf r) (length p) 0 of
                 None \<Rightarrow> Inl (Panicked (SliceBoundsOutOfRange (length p) 0))
               | Some b \<Rightarrow> Inl (Returned w None p' (r\<lparr>buf := b\<rparr>) []))))
     of
       Inl out \<Rightarrow> out
     | Inr (w, p1, r1) \<Rightarrow>
         (case recv (GoString []) (ch r1) of
            None \<Rightarrow> Blocked
          | Some (str, ok, c) \<Rightarrow>
              (let bytes = bytes_of str in
               case go_copy p1 bytes of (w2, p2) \<Rightarrow>
               case go_slice bytes w2 (length bytes) of
                 None \<Rightarrow> Panicked (SliceBoundsOutOfRange w2 (length bytes))
               | Some b \<Rightarrow>
                  (let r2 = r1\<lparr>ch := c, buf := b\<rparr> in
                   if ok \<or> length (buf r2) > 0
                   then Returned (w + w2) None p2 r2 [(str, ok)]
                   else Returned (w + w2) (Some EOF) p2 r2 [(str, ok)]))))"

text \<open>
  \<^verbatim>\<open>func (r *readerChanByteSlice) Read(p []byte) (n int, err error)\<close>, lines 158 to 182.
  The received slice is used as it is; the zero value of \<^verbatim>\<open>[]byte\<close> is the \<^verbatim>\<open>nil\<close>
  slice, of length 0.
\<close>

definition readerChanByteSlice_Read :: "readerChanByteSlice \<Rightarrow> byte list \<Rightarrow> byte list outcome" where
  "readerChanByteSlice_Read r p =
    (case
       (if length (buf r) = 0 then
          Inr (0, p, r)
        else if length p \<ge> length (buf r) then
          (case go_copy p (buf r) of (w, p') \<Rightarrow>
           case go_slice (buf r) 0 0 of
             None \<Rightarrow> Inl (Panicked (SliceBoundsOutOfRange 0 0))
           | Some b \<Rightarrow> Inr (w, p', r\<lparr>buf := b\<rparr>))
        else
          (case go_slice (buf r) 0 (length p) of
             None \<Rightarrow> Inl (Panicked (SliceBoundsOutOfRange 0 (length p)))
           | Some front \<Rightarrow>
              (case go_copy p front of (w, p') \<Rightarrow>
               case go_slice (buf r) (length p) 0 of
                 None \<Rightarrow> Inl (Panicked (SliceBoundsOutOfRange (length p) 0))
               | Some b \<Rightarrow> Inl (Returned w None p' (r\<lparr>buf := b\<rparr>) []))))
     of
       Inl out \<Rightarrow> out
     | Inr (w, p1, r1) \<Rightarrow>
         (case recv [] (ch r1) of
            None \<Rightarrow> Blocked
          | Some (bytes, ok, c) \<Rightarrow>
              (case go_copy p1 bytes of (w2, p2) \<Rightarrow>
               case go_slice bytes w2 (length bytes) of
                 None \<Rightarrow> Panicked (SliceBoundsOutOfRange w2 (length bytes))
               | Some b \<Rightarrow>
                  (let r2 = r1\<lparr>ch := c, buf := b\<rparr> in
                   if ok \<or> length (buf r2) > 0
                   then Returned (w + w2) None p2 r2 [(bytes, ok)]
                   else Returned (w + w2) (Some EOF) p2 r2 [(bytes, ok)]))))"

text \<open>
  \<^verbatim>\<open>func (r *readerChanString) Close() error\<close> and
  \<^verbatim>\<open>func (r *readerChanByteSlice) Close() error\<close>: \<^verbatim>\<open>close(r.ch); return nil\<close>. There is
  no \<^verbatim>\<open>recover\<close>, so a panic of \<^verbatim>\<open>close\<close> is the outcome of the call.
\<close>

definition readerChanString_Close :: "readerChanString \<Rightarrow> panic + (error option \<times> readerChanString)" where
  "readerChanString_Close r =
     (case chan_close (ch r) of Inl e \<Rightarrow> Inl e | Inr c \<Rightarrow> Inr (None, r\<lparr>ch := c\<rparr>))"

definition readerChanByteSlice_Close :: "readerChanByteSlice \<Rightarrow> panic + (error option \<times> readerChanByteSlice)" where
  "readerChanByteSlice_Close r =
     (case chan_close (ch r) of Inl e \<Rightarrow> Inl e | Inr c \<Rightarrow> Inr (None, r\<lparr>ch := c\<rparr>))"

subsection \<open>A consumer calling Read repeatedly\<close>

text \<open>
  A consumer calls \<^verbatim>\<open>Read\<close> with one destination buffer after the other and sees, for
  each call, the count, the error and the destination; it stops at a panic and at a call
  that does not return.
\<close>

datatype obs = Ret nat "error option" "byte list" | Panics panic | Blocks

fun reads :: "('a reader \<Rightarrow> byte list \<Rightarrow> 'a outcome) \<Rightarrow> 'a reader \<Rightarrow> byte list list \<Rightarrow> obs list" where
  "reads rd r [] = []"
| "reads rd r (p # ps) =
     (case rd r p of
        Returned n e p' r' lg \<Rightarrow> Ret n e p' # reads rd r' ps
      | Panicked e \<Rightarrow> [Panics e]
      | Blocked \<Rightarrow> [Blocks])"

fun written :: "obs \<Rightarrow> nat option" where
  "written (Ret n e p) = Some n"
| "written (Panics e) = None"
| "written Blocks = None"

fun delivered :: "obs \<Rightarrow> byte list" where
  "delivered (Ret n e p) = take n p"
| "delivered (Panics e) = []"
| "delivered Blocks = []"

fun end_of_stream :: "obs \<Rightarrow> bool" where
  "end_of_stream (Ret n e p) = (e = Some EOF)"
| "end_of_stream (Panics e) = False"
| "end_of_stream Blocks = False"

text \<open>The bytes of an ASCII text, for the concrete scenarios.\<close>

definition ascii :: "string \<Rightarrow> byte list" where
  "ascii s = map of_char s"

section \<open>The dispatcher\<close>

text \<open>
  \<^verbatim>\<open>func ReaderFromInterface(x interface{}) io.Reader\<close> is a type switch on the dynamic
  type of \<open>x\<close>. An interface value is \<^verbatim>\<open>nil\<close>, or a value together with its dynamic type;
  the flag says whether the method set of that type has \<^verbatim>\<open>Read([]byte) (int, error)\<close>,
  which is what the case \<^verbatim>\<open>io.Reader\<close> tests. \<^verbatim>\<open>chan T\<close>, \<^verbatim>\<open><-chan T\<close> and \<^verbatim>\<open>chan<- T\<close> are
  three different types.
\<close>

datatype chandir = BothDir | RecvDir | SendDir

datatype gotype =
    TString
  | TUint8
  | TSlice gotype
  | TChan chandir gotype
  | TPointer gotype
  | TNamed string

datatype 'v iface = NilIface | Iface gotype bool 'v

fun runtime_type :: "'v iface \<Rightarrow> gotype option" where
  "runtime_type NilIface = None"
| "runtime_type (Iface t rd y) = Some t"

text \<open>
  Modelled from the spec: the declaration of the struct type
  \<^verbatim>\<open>ReaderUnrefinableFromInterface\<close> is not in \<^verbatim>\<open>reader.go\<close>. The spec calls it a typed
  fault carrying the rejected input's runtime type; the composite literal at the call
  site gives it one field, \<^verbatim>\<open>wat\<close>, set to the rejected interface value.
\<close>

datatype 'v fault = ReaderUnrefinableFromInterface (wat: "'v iface")

text \<open>The reader that the dispatcher hands back, named by the branch that built it.\<close>

datatype 'v made =
    ReaderFromString 'v
  | ReaderFromByteSlice 'v
  | SameReader 'v
  | BufferPointer 'v
  | ReaderFromChanReadonlyString 'v
  | ReaderFromChanStringOf 'v
  | ReaderFromChanReadonlyByteSlice 'v
  | ReaderFromChanByteSliceOf 'v

fun ReaderFromInterface :: "'v iface \<Rightarrow> 'v fault + 'v made" where
  "ReaderFromInterface NilIface = Inl (ReaderUnrefinableFromInterface NilIface)"
| "ReaderFromInterface (Iface t rd y) =
     (if t = TString then Inr (ReaderFromString y)
      else if t = TSlice TUint8 then Inr (ReaderFromByteSlice y)
      else if rd then Inr (SameReader y)
      else if t = TNamed ''bytes.Buffer'' then Inr (BufferPointer y)
      else if t = TChan RecvDir TString then Inr (ReaderFromChanReadonlyString y)
      else if t = TChan BothDir TString then Inr (ReaderFromChanStringOf y)
      else if t = TChan RecvDir (TSlice TUint8) then Inr (ReaderFromChanReadonlyByteSlice y)
      else if t = TChan BothDir (TSlice TUint8) then Inr (ReaderFromChanByteSliceOf y)
      else Inl (ReaderUnrefinableFromInterface (Iface t rd y)))"

text \<open>
  The shapes the documentation of \<^verbatim>\<open>ReaderFromInterface\<close> lists: \<^verbatim>\<open>string\<close>,
  \<^verbatim>\<open>[]byte\<close>, \<^verbatim>\<open>io.Reader\<close>, \<^verbatim>\<open>bytes.Buffer\<close> and the four channel types.
\<close>

definition supported_types :: "gotype list" where
  "supported_types =
     [TString, TSlice TUint8, TNamed ''bytes.Buffer'',
      TChan RecvDir TString, TChan BothDir TString,
      TChan RecvDir (TSlice TUint8), TChan BothDir (TSlice TUint8)]"

fun supported :: "'v iface \<Rightarrow> bool" where
  "supported NilIface = False"
| "supported (Iface t rd y) = (rd \<or> t \<in> set supported_types)"

section \<open>The text reader seen as a byte reader\<close>

text \<open>
  The byte-channel reader fed the byte representations of the same chunks: the channel
  holds \<open>bytes_of\<close> of every pending string, the residual buffer is the same.
\<close>

definition bytes_reader :: "readerChanString \<Rightarrow> readerChanByteSlice" where
  "bytes_reader r = \<lparr>ch = map_chan bytes_of (ch r), buf = buf r\<rparr>"

fun bytes_outcome :: "gostring outcome \<Rightarrow> byte list outcome" where
  "bytes_outcome (Returned n e p r lg) =
     Returned n e p (bytes_reader r) (map (\<lambda>(s, ok). (bytes_of s, ok)) lg)"
| "bytes_outcome (Panicked e) = Panicked e"
| "bytes_outcome Blocked = Blocked"

section \<open>Facts about one call of Read\<close>

lemma recv_SomeD:
  "recv z c = Some (v, ok, c') \<Longrightarrow>
     (ok \<and> c = Chan (v # pending c') (closed c')) \<or>
     (\<not> ok \<and> v = z \<and> c = Chan [] True \<and> c' = Chan [] True)"
  by (induction z c rule: recv.induct) auto

lemma recv_map_chan:
  "recv (f z) (map_chan f c) =
     map_option (\<lambda>(v, ok, c'). (f v, ok, map_chan f c')) (recv z c)"
  by (induction z c rule: recv.induct) auto

text \<open>The destination is shorter than the residual buffer: lines 89 to 93.\<close>

lemma string_Read_undersized:
  "length p < length (buf r) \<Longrightarrow>
   readerChanString_Read r p =
     (if length p = 0 then Returned 0 None p (r\<lparr>buf := []\<rparr>) []
      else Panicked (SliceBoundsOutOfRange (length p) 0))"
  by (cases "buf r") (simp_all add: readerChanString_Read_def go_copy_def go_slice_def)

lemma bytes_Read_undersized:
  "length p < length (buf r) \<Longrightarrow>
   readerChanByteSlice_Read r p =
     (if length p = 0 then Returned 0 None p (r\<lparr>buf := []\<rparr>) []
      else Panicked (SliceBoundsOutOfRange (length p) 0))"
  by (cases "buf r") (simp_all add: readerChanByteSlice_Read_def go_copy_def go_slice_def)

text \<open>
  The residual buffer is empty or fits: the call goes on to the receive. Both copies
  start at the front of the destination.
\<close>

lemma string_Read_recv:
  "length (buf r) \<le> length p \<Longrightarrow>
   readerChanString_Read r p =
     (case recv (GoString []) (ch r) of
        None \<Rightarrow> Blocked
      | Some (str, ok, c) \<Rightarrow>
          Returned (length (buf r) + min (length p) (length (bytes_of str)))
            (if ok \<or> length p < length (bytes_of str) then None else Some EOF)
            (take (length p) (bytes_of str) @
               drop (length (bytes_of str)) (buf r @ drop (length (buf r)) p))
            (r\<lparr>ch := c, buf := drop (length p) (bytes_of str)\<rparr>)
            [(str, ok)])"
  by (cases "buf r = []")
    (auto simp add: readerChanString_Read_def go_copy_def go_slice_def Let_def min_def
      split: option.splits)

lemma bytes_Read_recv:
  "length (buf r) \<le> length p \<Longrightarrow>
   readerChanByteSlice_Read r p =
     (case recv [] (ch r) of
        None \<Rightarrow> Blocked
      | Some (bytes, ok, c) \<Rightarrow>
          Returned (length (buf r) + min (length p) (length bytes))
            (if ok \<or> length p < length bytes then None else Some EOF)
            (take (length p) bytes @
               drop (length bytes) (buf r @ drop (length (buf r)) p))
            (r\<lparr>ch := c, buf := drop (length p) bytes\<rparr>)
            [(bytes, ok)])"
  by (cases "buf r = []")
    (auto simp add: readerChanByteSlice_Read_def go_copy_def go_slice_def Let_def min_def
      split: option.splits)

lemma Read_string_bytes:
  "readerChanByteSlice_Read (bytes_reader r) p = bytes_outcome (readerChanString_Read r p)"
proof (cases "length (buf r) \<le> length p")
  case True
  then have fits: "length (buf (bytes_reader r)) \<le> length p"
    by (simp add: bytes_reader_def)
  have rc: "recv [] (ch (bytes_reader r)) =
      map_option (\<lambda>(v, ok, c'). (bytes_of v, ok, map_chan bytes_of c')) (recv (GoString []) (ch r))"
    using recv_map_chan [of bytes_of "GoString []" "ch r"] by (simp add: bytes_reader_def)
  show ?thesis
    unfolding bytes_Read_recv [OF fits] string_Read_recv [OF True] rc
    by (cases "recv (GoString []) (ch r)") (auto simp: bytes_reader_def)
next
  case False
  then have small: "length p < length (buf r)" by simp
  then have small': "length p < length (buf (bytes_reader r))"
    by (simp add: bytes_reader_def)
  show ?thesis
    unfolding bytes_Read_undersized [OF small'] string_Read_undersized [OF small]
    by (simp add: bytes_reader_def)
qed

lemma reads_string_bytes:
  "reads readerChanByteSlice_Read (bytes_reader r) ps = reads readerChanString_Read r ps"
proof (induction ps arbitrary: r)
  case Nil
  show ?case by simp
next
  case (Cons p ps)
  show ?case
    by (cases "readerChanString_Read r p") (simp_all add: Read_string_bytes Cons.IH)
qed

section \<open>Claims\<close>

text \<open>
  C4. A call of \<^verbatim>\<open>Read\<close> returns \<^verbatim>\<open>io.EOF\<close> if and only if its receive found the channel
  closed with nothing pending (\<open>ok = false\<close>) and the residual buffer is empty when the
  call returns. In terms of the state before the call: when the channel is closed with
  nothing pending and the residual buffer fits the destination, the call returns the
  residual bytes, \<^verbatim>\<open>io.EOF\<close> and an empty residual buffer, after one receive with
  \<open>ok = false\<close>; and no other call returns \<^verbatim>\<open>io.EOF\<close>. A receive with \<open>ok = false\<close> happens
  only on a closed channel with nothing pending, and a call that leaves a non-empty
  residual buffer returns no error, whatever the state of the channel. Stated for the text
  reader (\<open>r\<close>, \<open>p\<close>) and the byte reader (\<open>rb\<close>, \<open>pb\<close>).
\<close>

theorem eof_iff_closed_drained_and_residual_empty:
  "(ch r = Chan [] True \<and> length (buf r) \<le> length p \<longrightarrow>
      readerChanString_Read r p =
        Returned (length (buf r)) (Some EOF) (buf r @ drop (length (buf r)) p)
          (r\<lparr>buf := []\<rparr>) [(GoString [], False)]) \<and>
   ((\<exists>m q s l. readerChanString_Read r p = Returned m (Some EOF) q s l) =
      (ch r = Chan [] True \<and> length (buf r) \<le> length p)) \<and>
   (readerChanString_Read r p = Returned n e p' r' lg \<longrightarrow>
      ((e = Some EOF) = ((\<exists>v. lg = [(v, False)]) \<and> buf r' = [])) \<and>
      ((\<exists>v. lg = [(v, False)]) \<longrightarrow> ch r = Chan [] True) \<and>
      (buf r' \<noteq> [] \<longrightarrow> e = None)) \<and>
   (ch rb = Chan [] True \<and> length (buf rb) \<le> length pb \<longrightarrow>
      readerChanByteSlice_Read rb pb =
        Returned (length (buf rb)) (Some EOF) (buf rb @ drop (length (buf rb)) pb)
          (rb\<lparr>buf := []\<rparr>) [([], False)]) \<and>
   ((\<exists>m q s l. readerChanByteSlice_Read rb pb = Returned m (Some EOF) q s l) =
      (ch rb = Chan [] True \<and> length (buf rb) \<le> length pb)) \<and>
   (readerChanByteSlice_Read rb pb = Returned nb eb pb' rb' lgb \<longrightarrow>
      ((eb = Some EOF) = ((\<exists>v. lgb = [(v, False)]) \<and> buf rb' = [])) \<and>
      ((\<exists>v. lgb = [(v, False)]) \<longrightarrow> ch rb = Chan [] True) \<and>
      (buf rb' \<noteq> [] \<longrightarrow> eb = None))"
proof -
  have s_eof: "readerChanString_Read r p =
      Returned (length (buf r)) (Some EOF) (buf r @ drop (length (buf r)) p)
        (r\<lparr>buf := []\<rparr>) [(GoString [], False)]"
    if a: "ch r = Chan [] True \<and> length (buf r) \<le> length p"
  proof -
    from a have fits: "length (buf r) \<le> length p" by simp
    have "r\<lparr>ch := Chan [] True, buf := []\<rparr> = r\<lparr>buf := []\<rparr>"
      using a by simp
    then show ?thesis
      unfolding string_Read_recv [OF fits] using a by simp
  qed
  have s_only: "ch r = Chan [] True \<and> length (buf r) \<le> length p"
    if a: "readerChanString_Read r p = Returned m (Some EOF) q s l" for m q s l
    using a by (cases "length (buf r) \<le> length p")
      (auto simp: string_Read_recv string_Read_undersized
        split: option.splits if_splits dest!: recv_SomeD)
  have b_eof: "readerChanByteSlice_Read rb pb =
      Returned (length (buf rb)) (Some EOF) (buf rb @ drop (length (buf rb)) pb)
        (rb\<lparr>buf := []\<rparr>) [([], False)]"
    if a: "ch rb = Chan [] True \<and> length (buf rb) \<le> length pb"
  proof -
    from a have fits: "length (buf rb) \<le> length pb" by simp
    have "rb\<lparr>ch := Chan [] True, buf := []\<rparr> = rb\<lparr>buf := []\<rparr>"
      using a by simp
    then show ?thesis
      unfolding bytes_Read_recv [OF fits] using a by simp
  qed
  have b_only: "ch rb = Chan [] True \<and> length (buf rb) \<le> length pb"
    if a: "readerChanByteSlice_Read rb pb = Returned m (Some EOF) q s l" for m q s l
    using a by (cases "length (buf rb) \<le> length pb")
      (auto simp: bytes_Read_recv bytes_Read_undersized
        split: option.splits if_splits dest!: recv_SomeD)
  have s_iff: "(\<exists>m q s l. readerChanString_Read r p = Returned m (Some EOF) q s l) =
      (ch r = Chan [] True \<and> length (buf r) \<le> length p)"
    using s_eof s_only by blast
  have b_iff: "(\<exists>m q s l. readerChanByteSlice_Read rb pb = Returned m (Some EOF) q s l) =
      (ch rb = Chan [] True \<and> length (buf rb) \<le> length pb)"
    using b_eof b_only by blast
  have s_ret: "((e = Some EOF) = ((\<exists>v. lg = [(v, False)]) \<and> buf r' = [])) \<and>
      ((\<exists>v. lg = [(v, False)]) \<longrightarrow> ch r = Chan [] True) \<and>
      (buf r' \<noteq> [] \<longrightarrow> e = None)"
    if a: "readerChanString_Read r p = Returned n e p' r' lg"
    using a by (cases "length (buf r) \<le> length p")
      (auto simp: string_Read_recv string_Read_undersized
        split: option.splits if_splits dest!: recv_SomeD)
  have b_ret: "((eb = Some EOF) = ((\<exists>v. lgb = [(v, False)]) \<and> buf rb' = [])) \<and>
      ((\<exists>v. lgb = [(v, False)]) \<longrightarrow> ch rb = Chan [] True) \<and>
      (buf rb' \<noteq> [] \<longrightarrow> eb = None)"
    if a: "readerChanByteSlice_Read rb pb = Returned nb eb pb' rb' lgb"
    using a by (cases "length (buf rb) \<le> length pb")
      (auto simp: bytes_Read_recv bytes_Read_undersized
        split: option.splits if_splits dest!: recv_SomeD)
  show ?thesis
    using s_eof s_iff s_ret b_eof b_iff b_ret by blast
qed

text \<open>
  On a closed channel with nothing pending, the text reader with residual \<open>[1]\<close> and the
  byte reader with an empty residual both return \<^verbatim>\<open>io.EOF\<close>. The byte reader that
  receives the last chunk \<open>ab\<close> of a closed channel into a 1-byte destination keeps \<open>b\<close>
  and returns no error, and so does the text reader on an open channel.
\<close>

theorem eof_iff_closed_drained_and_residual_empty_witness:
  "ch \<lparr>ch = Chan [] True :: gostring chan, buf = [1]\<rparr> = Chan [] True \<and>
   length (buf \<lparr>ch = Chan [] True :: gostring chan, buf = [1]\<rparr>) \<le> length [0, 0 :: byte] \<and>
   readerChanString_Read \<lparr>ch = Chan [] True, buf = [1]\<rparr> [0, 0] =
     Returned 1 (Some EOF) [1, 0] \<lparr>ch = Chan [] True, buf = []\<rparr> [(GoString [], False)] \<and>
   ch \<lparr>ch = Chan [] True :: byte list chan, buf = []\<rparr> = Chan [] True \<and>
   length (buf \<lparr>ch = Chan [] True :: byte list chan, buf = []\<rparr>) \<le> length [0 :: byte] \<and>
   readerChanByteSlice_Read \<lparr>ch = Chan [] True, buf = []\<rparr> [0] =
     Returned 0 (Some EOF) [0] \<lparr>ch = Chan [] True, buf = []\<rparr> [([], False)] \<and>
   readerChanByteSlice_Read \<lparr>ch = Chan [ascii ''ab''] True, buf = []\<rparr> [0] =
     Returned 1 None (ascii ''a'') \<lparr>ch = Chan [] True, buf = ascii ''b''\<rparr> [(ascii ''ab'', True)] \<and>
   readerChanString_Read \<lparr>ch = Chan [GoString (ascii ''a'')] False, buf = []\<rparr> [0] =
     Returned 1 None (ascii ''a'') \<lparr>ch = Chan [] False, buf = []\<rparr> [(GoString (ascii ''a''), True)] \<and>
   ((Some EOF = Some EOF) =
      ((\<exists>v. [(GoString [], False)] = [(v, False)]) \<and>
       buf \<lparr>ch = Chan [] True :: gostring chan, buf = []\<rparr> = [])) \<and>
   ((None = Some EOF) =
      ((\<exists>v. [(ascii ''ab'', True)] = [(v, False)]) \<and>
       buf \<lparr>ch = Chan [] True :: byte list chan, buf = ascii ''b''\<rparr> = []))"
  using eof_iff_closed_drained_and_residual_empty
    [of "\<lparr>ch = Chan [] True, buf = [1]\<rparr>" "[0, 0]" 1 "Some EOF" "[1, 0]"
        "\<lparr>ch = Chan [] True, buf = []\<rparr>" "[(GoString [], False)]"
        "\<lparr>ch = Chan [ascii ''ab''] True, buf = []\<rparr>" "[0]" 1 None "ascii ''a''"
        "\<lparr>ch = Chan [] True, buf = ascii ''b''\<rparr>" "[(ascii ''ab'', True)]"]
    eof_iff_closed_drained_and_residual_empty
    [of "\<lparr>ch = Chan [GoString (ascii ''a'')] False, buf = []\<rparr>" "[0]" 1 None "ascii ''a''"
        "\<lparr>ch = Chan [] False, buf = []\<rparr>" "[(GoString (ascii ''a''), True)]"
        "\<lparr>ch = Chan [] True, buf = []\<rparr>" "[0]" 0 "Some EOF" "[0]"
        "\<lparr>ch = Chan [] True, buf = []\<rparr>" "[([], False)]"]
  by (simp add: readerChanString_Read_def readerChanByteSlice_Read_def go_copy_def
      go_slice_def ascii_def Let_def)

text \<open>
  C10. A call of \<^verbatim>\<open>Read\<close> with a destination of length 0 while the residual buffer is
  not empty returns \<open>(0, nil)\<close> and performs no receive, and it leaves the residual buffer
  empty: every later call sees the reader as if the residual bytes had never been there,
  so they are in no later destination.
\<close>

theorem zero_capacity_read_discards_residual:
  "(buf r \<noteq> [] \<longrightarrow>
      readerChanString_Read r [] = Returned 0 None [] (r\<lparr>buf := []\<rparr>) [] \<and>
      reads readerChanString_Read r ([] # ps) =
        Ret 0 None [] # reads readerChanString_Read (r\<lparr>buf := []\<rparr>) ps) \<and>
   (buf rb \<noteq> [] \<longrightarrow>
      readerChanByteSlice_Read rb [] = Returned 0 None [] (rb\<lparr>buf := []\<rparr>) [] \<and>
      reads readerChanByteSlice_Read rb ([] # pbs) =
        Ret 0 None [] # reads readerChanByteSlice_Read (rb\<lparr>buf := []\<rparr>) pbs)"
proof (intro conjI impI)
  assume "buf r \<noteq> []"
  then have small: "length ([] :: byte list) < length (buf r)" by simp
  show one: "readerChanString_Read r [] = Returned 0 None [] (r\<lparr>buf := []\<rparr>) []"
    using string_Read_undersized [OF small] by simp
  show "reads readerChanString_Read r ([] # ps) =
      Ret 0 None [] # reads readerChanString_Read (r\<lparr>buf := []\<rparr>) ps"
    by (simp add: one)
next
  assume "buf rb \<noteq> []"
  then have small: "length ([] :: byte list) < length (buf rb)" by simp
  show one: "readerChanByteSlice_Read rb [] = Returned 0 None [] (rb\<lparr>buf := []\<rparr>) []"
    using bytes_Read_undersized [OF small] by simp
  show "reads readerChanByteSlice_Read rb ([] # pbs) =
      Ret 0 None [] # reads readerChanByteSlice_Read (rb\<lparr>buf := []\<rparr>) pbs"
    by (simp add: one)
qed

text \<open>
  With residual \<open>ab\<close> and the chunk \<open>x\<close> pending on a closed channel, the zero-length
  read is followed by reads that deliver \<open>x\<close> and end-of-stream: \<open>ab\<close> is gone.
\<close>

theorem zero_capacity_read_discards_residual_witness:
  "buf \<lparr>ch = Chan [GoString (ascii ''x'')] True, buf = ascii ''ab''\<rparr> \<noteq> [] \<and>
   buf \<lparr>ch = Chan [ascii ''x''] True, buf = ascii ''ab''\<rparr> \<noteq> [] \<and>
   reads readerChanString_Read \<lparr>ch = Chan [GoString (ascii ''x'')] True, buf = ascii ''ab''\<rparr>
     [[], [0, 0], [0, 0]] =
     [Ret 0 None [], Ret 1 None [120, 0], Ret 0 (Some EOF) [0, 0]] \<and>
   reads readerChanByteSlice_Read \<lparr>ch = Chan [ascii ''x''] True, buf = ascii ''ab''\<rparr>
     [[], [0, 0], [0, 0]] =
     [Ret 0 None [], Ret 1 None [120, 0], Ret 0 (Some EOF) [0, 0]]"
  using zero_capacity_read_discards_residual
    [of "\<lparr>ch = Chan [GoString (ascii ''x'')] True, buf = ascii ''ab''\<rparr>" "[[0, 0], [0, 0]]"
        "\<lparr>ch = Chan [ascii ''x''] True, buf = ascii ''ab''\<rparr>" "[[0, 0], [0, 0]]"]
  by (simp add: readerChanString_Read_def readerChanByteSlice_Read_def go_copy_def
      go_slice_def ascii_def Let_def)

text \<open>
  C7. For both closable readers: \<^verbatim>\<open>Close\<close> on a reader whose channel is open returns
  \<^verbatim>\<open>nil\<close> and leaves the channel closed; \<^verbatim>\<open>Close\<close> on the reader as that call left it
  panics, and the panic is the outcome of the call.
\<close>

theorem double_close_panics:
  "(ch r = Chan vs False \<longrightarrow>
      readerChanString_Close r = Inr (None, r\<lparr>ch := Chan vs True\<rparr>) \<and>
      readerChanString_Close (r\<lparr>ch := Chan vs True\<rparr>) = Inl CloseOfClosedChannel) \<and>
   (ch rb = Chan vbs False \<longrightarrow>
      readerChanByteSlice_Close rb = Inr (None, rb\<lparr>ch := Chan vbs True\<rparr>) \<and>
      readerChanByteSlice_Close (rb\<lparr>ch := Chan vbs True\<rparr>) = Inl CloseOfClosedChannel)"
  by (simp add: readerChanString_Close_def readerChanByteSlice_Close_def)

theorem double_close_panics_witness:
  "ch (ReaderFromChanString (Chan [GoString (ascii ''ab'')] False)) =
     Chan [GoString (ascii ''ab'')] False \<and>
   ch (ReaderFromChanByteSlice (Chan [] False)) = Chan [] False \<and>
   readerChanString_Close (ReaderFromChanString (Chan [GoString (ascii ''ab'')] False)) =
     Inr (None, \<lparr>ch = Chan [GoString (ascii ''ab'')] True, buf = []\<rparr>) \<and>
   readerChanString_Close \<lparr>ch = Chan [GoString (ascii ''ab'')] True, buf = []\<rparr> =
     Inl CloseOfClosedChannel \<and>
   readerChanByteSlice_Close (ReaderFromChanByteSlice (Chan [] False)) =
     Inr (None, \<lparr>ch = Chan [] True, buf = []\<rparr>) \<and>
   readerChanByteSlice_Close \<lparr>ch = Chan [] True, buf = []\<rparr> = Inl CloseOfClosedChannel"
  using double_close_panics
    [of "ReaderFromChanString (Chan [GoString (ascii ''ab'')] False)"
        "[GoString (ascii ''ab'')]"
        "ReaderFromChanByteSlice (Chan [] False)" "[]"]
  by (simp add: ReaderFromChanString_def ReaderFromChanByteSlice_def)

text \<open>
  C3, at a failing input. The chunk \<open>abc\<close> is received into a 1-byte destination, which
  leaves the residual \<open>bc\<close>. The next call with a 1-byte destination is in the branch
  for a destination shorter than the residual: it evaluates \<^verbatim>\<open>r.buf[len(p):0]\<close> with
  \<open>len(p) = 1\<close> and panics instead of returning \<open>(1, nil)\<close> and keeping \<open>c\<close>.
\<close>

theorem undersized_destination_panics:
  "reads readerChanString_Read (ReaderFromChanString (Chan [GoString (ascii ''abc'')] False))
     [[0], [0]] =
     [Ret 1 None (ascii ''a''), Panics (SliceBoundsOutOfRange 1 0)] \<and>
   readerChanString_Read \<lparr>ch = Chan [] False, buf = ascii ''bc''\<rparr> [0] =
     Panicked (SliceBoundsOutOfRange 1 0) \<and>
   reads readerChanByteSlice_Read (ReaderFromChanByteSlice (Chan [ascii ''abc''] False))
     [[0], [0]] =
     [Ret 1 None (ascii ''a''), Panics (SliceBoundsOutOfRange 1 0)] \<and>
   readerChanByteSlice_Read \<lparr>ch = Chan [] False, buf = ascii ''bc''\<rparr> [0] =
     Panicked (SliceBoundsOutOfRange 1 0)"
  by (simp add: readerChanString_Read_def readerChanByteSlice_Read_def go_copy_def
      go_slice_def ascii_def Let_def ReaderFromChanString_def ReaderFromChanByteSlice_def)

text \<open>
  C1, at a failing input. The producer sends \<open>ab\<close>, then \<open>c\<close>, and closes; the consumer
  reads into 1-byte destinations. The second call copies the residual \<open>b\<close> to the front
  of the destination and then copies the received chunk \<open>c\<close> to the front again
  (\<^verbatim>\<open>copy(p, bytes)\<close>): \<open>b\<close> is overwritten, and the bytes delivered are \<open>a\<close>, \<open>c\<close>.
\<close>

theorem fresh_chunk_overwrites_residual_bytes:
  "reads readerChanString_Read
     (ReaderFromChanString (Chan [GoString (ascii ''ab''), GoString (ascii ''c'')] True))
     [[0], [0], [0]] =
     [Ret 1 None (ascii ''a''), Ret 2 None (ascii ''c''), Ret 0 (Some EOF) [0]] \<and>
   reads readerChanByteSlice_Read
     (ReaderFromChanByteSlice (Chan [ascii ''ab'', ascii ''c''] True))
     [[0], [0], [0]] =
     [Ret 1 None (ascii ''a''), Ret 2 None (ascii ''c''), Ret 0 (Some EOF) [0]] \<and>
   concat (map delivered
     (reads readerChanString_Read
       (ReaderFromChanString (Chan [GoString (ascii ''ab''), GoString (ascii ''c'')] True))
       [[0], [0], [0]])) \<noteq> ascii ''abc''"
  by (simp add: readerChanString_Read_def readerChanByteSlice_Read_def go_copy_def
      go_slice_def ascii_def Let_def ReaderFromChanString_def ReaderFromChanByteSlice_def)

text \<open>
  C2, at a failing input. The producer sends \<open>abc\<close>, then \<open>de\<close>; the consumer reads into
  2-byte destinations. The second call returns \<open>w + w2 = 1 + 2 = 3\<close>, more than the
  length 2 of its destination.
\<close>

theorem count_exceeds_destination_length:
  "map written
     (reads readerChanString_Read
       (ReaderFromChanString (Chan [GoString (ascii ''abc''), GoString (ascii ''de'')] True))
       [[0, 0], [0, 0]]) = [Some 2, Some 3] \<and>
   map written
     (reads readerChanByteSlice_Read
       (ReaderFromChanByteSlice (Chan [ascii ''abc'', ascii ''de''] True))
       [[0, 0], [0, 0]]) = [Some 2, Some 3] \<and>
   readerChanString_Read \<lparr>ch = Chan [GoString (ascii ''de'')] True, buf = ascii ''c''\<rparr> [0, 0] =
     Returned 3 None (ascii ''de'') \<lparr>ch = Chan [] True, buf = []\<rparr>
       [(GoString (ascii ''de''), True)] \<and>
   length [0, 0 :: byte] < 3"
  by (simp add: readerChanString_Read_def readerChanByteSlice_Read_def go_copy_def
      go_slice_def ascii_def Let_def ReaderFromChanString_def ReaderFromChanByteSlice_def)

text \<open>
  C5 as stated fails: with the chunks \<open>ab\<close>, \<open>cd\<close> sent and the channel closed, two
  reads into 3-byte destinations write 2 and 2 bytes, \<open>ab\<close> and \<open>cd\<close>, neither with
  end-of-stream; they do not write 3 bytes and then 1 byte.
\<close>

theorem scenario_ab_cd_counterexample:
  "reads readerChanString_Read
     (ReaderFromChanString (Chan [GoString (ascii ''ab''), GoString (ascii ''cd'')] True))
     [[0, 0, 0], [0, 0, 0]] =
     [Ret 2 None [97, 98, 0], Ret 2 None [99, 100, 0]] \<and>
   map written
     (reads readerChanString_Read
       (ReaderFromChanString (Chan [GoString (ascii ''ab''), GoString (ascii ''cd'')] True))
       [[0, 0, 0], [0, 0, 0]]) \<noteq> [Some 3, Some 1] \<and>
   map end_of_stream
     (reads readerChanString_Read
       (ReaderFromChanString (Chan [GoString (ascii ''ab''), GoString (ascii ''cd'')] True))
       [[0, 0, 0], [0, 0, 0]]) \<noteq> [False, True]"
  by (simp add: readerChanString_Read_def go_copy_def go_slice_def ascii_def Let_def
      ReaderFromChanString_def)

text \<open>
  C5, amended. Each call performs one receive: with the chunks \<open>ab\<close>, \<open>cd\<close> sent and the
  channel closed, three reads into 3-byte destinations (of any contents) give: the first
  writes the 2 bytes \<open>ab\<close>, no end-of-stream; the second writes the 2 bytes \<open>cd\<close>, no
  end-of-stream; the third writes 0 bytes and signals end-of-stream.
\<close>

theorem scenario_ab_cd_one_chunk_per_read:
  "reads readerChanString_Read
     (ReaderFromChanString (Chan [GoString (ascii ''ab''), GoString (ascii ''cd'')] True))
     [[x1, x2, x3], [y1, y2, y3], [z1, z2, z3]] =
     [Ret 2 None (ascii ''ab'' @ [x3]), Ret 2 None (ascii ''cd'' @ [y3]),
      Ret 0 (Some EOF) [z1, z2, z3]]"
  by (simp add: readerChanString_Read_def go_copy_def go_slice_def ascii_def Let_def
      ReaderFromChanString_def)




text \<open>
  C8. \<^verbatim>\<open>ReaderFromInterface\<close> panics exactly on the inputs that are neither an
  \<^verbatim>\<open>io.Reader\<close> nor of one of the seven listed types. The panic value is a
  \<^verbatim>\<open>ReaderUnrefinableFromInterface\<close> whose field holds the rejected input, and with it
  its runtime type; no reader is returned. On every other input a reader is returned.
\<close>

theorem dispatch_fault_iff_unsupported:
  "(\<not> supported x \<longrightarrow>
      ReaderFromInterface x = Inl (ReaderUnrefinableFromInterface x) \<and>
      runtime_type (wat (ReaderUnrefinableFromInterface x)) = runtime_type x) \<and>
   (supported x \<longrightarrow> (\<exists>rd. ReaderFromInterface x = Inr rd))"
  by (cases x) (auto simp: supported_types_def)

text \<open>
  A send-only channel of strings is rejected, and so is the \<^verbatim>\<open>nil\<close> interface; a
  \<^verbatim>\<open>chan []byte\<close> and a pointer to a type with a \<^verbatim>\<open>Read\<close> method are accepted.
\<close>

theorem dispatch_fault_iff_unsupported_witness:
  "\<not> supported (Iface (TChan SendDir TString) False (0::nat)) \<and>
   ReaderFromInterface (Iface (TChan SendDir TString) False (0::nat)) =
     Inl (ReaderUnrefinableFromInterface (Iface (TChan SendDir TString) False 0)) \<and>
   runtime_type (wat (ReaderUnrefinableFromInterface (Iface (TChan SendDir TString) False (0::nat)))) =
     Some (TChan SendDir TString) \<and>
   \<not> supported (NilIface :: nat iface) \<and>
   ReaderFromInterface (NilIface :: nat iface) = Inl (ReaderUnrefinableFromInterface NilIface) \<and>
   supported (Iface (TChan BothDir (TSlice TUint8)) False (1::nat)) \<and>
   ReaderFromInterface (Iface (TChan BothDir (TSlice TUint8)) False (1::nat)) =
     Inr (ReaderFromChanByteSliceOf 1) \<and>
   supported (Iface (TPointer (TNamed ''os.File'')) True (2::nat)) \<and>
   ReaderFromInterface (Iface (TPointer (TNamed ''os.File'')) True (2::nat)) = Inr (SameReader 2)"
  using dispatch_fault_iff_unsupported [of "Iface (TChan SendDir TString) False (0::nat)"]
    dispatch_fault_iff_unsupported [of "NilIface :: nat iface"]
    dispatch_fault_iff_unsupported [of "Iface (TChan BothDir (TSlice TUint8)) False (1::nat)"]
    dispatch_fault_iff_unsupported [of "Iface (TPointer (TNamed ''os.File'')) True (2::nat)"]
  by (simp add: supported_types_def)

text \<open>
  C9. The received string is turned into its bytes right after the receive, and the
  residual buffer holds bytes only. A call of the text reader's \<^verbatim>\<open>Read\<close> has the outcome
  of the byte reader's \<^verbatim>\<open>Read\<close> on the reader whose channel holds the bytes of the same
  chunks: the same count, error, destination, residual buffer, panic or blocking. So for
  every sequence of string chunks, closed or not, and every sequence of destinations, the
  two readers give the consumer the same results call by call.
\<close>

theorem text_reader_behaves_as_byte_reader:
  "bytes_outcome (readerChanString_Read r p) = readerChanByteSlice_Read (bytes_reader r) p \<and>
   reads readerChanString_Read r ps = reads readerChanByteSlice_Read (bytes_reader r) ps \<and>
   reads readerChanString_Read (ReaderFromChanString (Chan cs cl)) ps =
     reads readerChanByteSlice_Read (ReaderFromChanByteSlice (Chan (map bytes_of cs) cl)) ps"
proof -
  have "bytes_reader (ReaderFromChanString (Chan cs cl)) =
      ReaderFromChanByteSlice (Chan (map bytes_of cs) cl)"
    by (simp add: bytes_reader_def ReaderFromChanString_def ReaderFromChanByteSlice_def)
  then show ?thesis
    using reads_string_bytes [of "ReaderFromChanString (Chan cs cl)" ps]
    by (simp add: Read_string_bytes reads_string_bytes)
qed

end
